theory Spec2Isabelle
  imports Main
begin

section \<open>The planner of app.js: data\<close>

text \<open>
  The values a drop handler can receive from \<^verbatim>\<open>getAttribute\<close> or from a direct caller:
  a string, a number, or null. Stored ids are the auto-increment keys of the table
  \<^verbatim>\<open>tasks: "++id, ..."\<close> and the array indices of the pills: non-negative integers, which
  as JavaScript numbers are exact below 2^53.
\<close>

datatype jsval = JString string | JNumber nat | JNull

text \<open>
  \<^verbatim>\<open>Number.prototype.toString()\<close> on a non-negative integer below 2^53: the decimal digits,
  most significant first, no leading zero. From 2^53 on a JavaScript number is no longer
  every integer and prints rounded digits (2^60 as 1152921504606847000) or, from 10^21, an
  exponent (1e+21); \<open>toString\<close> below keeps printing exact digits there, so it stands for
  the JavaScript method only on ids below 2^53, and what is said of the printed form of an
  id is said under that bound.
\<close>

definition digit_char :: "nat \<Rightarrow> char" where
  "digit_char d = ''0123456789'' ! d"

fun toString :: "nat \<Rightarrow> string" where
  "toString n =
     (if n < 10 then [digit_char n] else toString (n div 10) @ [digit_char (n mod 10)])"

declare toString.simps [simp del]

text \<open>
  \<^verbatim>\<open>x.toString() === v\<close>: strict equality of a string with a value holds only when the
  value is a string with the same characters; there is no conversion.
\<close>

fun strict_eq :: "string \<Rightarrow> jsval \<Rightarrow> bool" where
  "strict_eq x (JString y) = (x = y)"
| "strict_eq x (JNumber n) = False"
| "strict_eq x JNull = False"

text \<open>
  A task as \<^verbatim>\<open>addTask\<close> builds it: \<^verbatim>\<open>{ id, title, date, status, slot }\<close>, where slot is
  null (unscheduled) or a label. A pill as line 273 builds it: \<^verbatim>\<open>{ id, time, taken }\<close>.
\<close>

record task =
  task_id :: nat
  title :: string
  date :: string
  status :: string
  slot :: "string option"

record pill =
  pill_id :: nat
  time :: string
  taken :: bool

text \<open>
  The IndexedDB table is outside the program; what the program does to it is the sequence
  of requests it issues: \<^verbatim>\<open>db.tasks.add({ title, date, status, slot })\<close> and
  \<^verbatim>\<open>db.tasks.put(task)\<close>.
\<close>

datatype db_request =
    DbAdd string string string "string option"
  | DbPut task

text \<open>The state of the component \<^verbatim>\<open>App\<close>: the two \<^verbatim>\<open>useState\<close> cells and the requests sent.\<close>

record app =
  tasks :: "task list"
  pills :: "pill list"
  db :: "db_request list"

text \<open>
  How a call ends. No function of app.js has a \<^verbatim>\<open>throw\<close>; the only abrupt end is the
  rejection of the promise of \<^verbatim>\<open>addTask\<close> when the awaited \<^verbatim>\<open>db.tasks.add\<close> rejects.
  The other constructors of \<open>error\<close> are the names the design gives to the errors of its
  operations, so that a result can be compared with them.
\<close>

datatype error = InvalidInput | UnknownTask | InvalidSlot | UnknownSlot | PersistenceFailure

datatype completion = Returned | Failed error

section \<open>Operations\<close>

definition timeSlots :: "string list" where
  "timeSlots =
     [''08:00'', ''09:00'', ''10:00'', ''11:00'', ''12:00'', ''13:00'', ''14:00'', ''15:00'',
      ''16:00'', ''17:00'', ''18:00'', ''19:00'', ''20:00'', ''21:00'', ''22:00'', ''23:00'',
      ''00:00'']"

text \<open>\<^verbatim>\<open>timeSlots.map((time, index) => ({ id: index, time, taken: false }))\<close>\<close>

definition initial_pills :: "pill list" where
  "initial_pills =
     map (\<lambda>(index, t). \<lparr>pill_id = index, time = t, taken = False\<rparr>) (enumerate 0 timeSlots)"

definition initial_app :: app where
  "initial_app = \<lparr>tasks = [], pills = initial_pills, db = []\<rparr>"

text \<open>\<^verbatim>\<open>loadTasks\<close>: the rows that \<^verbatim>\<open>db.tasks.toArray()\<close> resolves to replace the tasks.\<close>

definition loadTasks :: "task list \<Rightarrow> app \<Rightarrow> app" where
  "loadTasks allTasks s = s\<lparr>tasks := allTasks\<rparr>"

text \<open>
  \<^verbatim>\<open>addTask\<close> (lines 284-287). The reply of the store is an input: the key it assigned, or
  a rejection, after which the line with \<^verbatim>\<open>setTasks\<close> is not reached. Events are taken
  one at a time, so the \<^verbatim>\<open>tasks\<close> of the closure are the current ones.
\<close>

datatype add_reply = Resolved nat | Rejected

fun addTask :: "string \<Rightarrow> string \<Rightarrow> add_reply \<Rightarrow> app \<Rightarrow> completion \<times> app" where
  "addTask ttl d (Resolved i) s =
     (Returned,
      s\<lparr>tasks := tasks s @ [\<lparr>task_id = i, title = ttl, date = d, status = ''pending'', slot = None\<rparr>],
        db := db s @ [DbAdd ttl d ''pending'' None]\<rparr>)"
| "addTask ttl d Rejected s =
     (Failed PersistenceFailure, s\<lparr>db := db s @ [DbAdd ttl d ''pending'' None]\<rparr>)"

text \<open>\<^verbatim>\<open>updateTaskSlot\<close> (lines 289-296).\<close>

definition updateTaskSlot :: "jsval \<Rightarrow> string option \<Rightarrow> app \<Rightarrow> completion \<times> app" where
  "updateTaskSlot taskId new_slot s =
     (let updated = map (\<lambda>t. if strict_eq (toString (task_id t)) taskId
                               then t\<lparr>slot := new_slot\<rparr> else t) (tasks s);
          taskToUpdate = find (\<lambda>t. strict_eq (toString (task_id t)) taskId) updated
      in (Returned,
          s\<lparr>tasks := updated,
            db := (case taskToUpdate of Some t \<Rightarrow> db s @ [DbPut t] | None \<Rightarrow> db s)\<rparr>))"

text \<open>\<^verbatim>\<open>updatePillStatus\<close> (lines 298-304).\<close>

definition updatePillStatus :: "jsval \<Rightarrow> bool \<Rightarrow> app \<Rightarrow> completion \<times> app" where
  "updatePillStatus pillIndex tk s =
     (Returned,
      s\<lparr>pills := map (\<lambda>p. if strict_eq (toString (pill_id p)) pillIndex
                           then p\<lparr>taken := tk\<rparr> else p) (pills s)\<rparr>)"

subsection \<open>What the views read\<close>

text \<open>Line 313: \<^verbatim>\<open>tasks.filter(t => t.slot === null)\<close>.\<close>

definition unscheduled :: "app \<Rightarrow> task list" where
  "unscheduled s = filter (\<lambda>t. slot t = None) (tasks s)"

text \<open>
  Line 315 hands \<^verbatim>\<open>tasks.filter(t => t.slot !== null)\<close> to the schedule, and line 190
  takes from it \<^verbatim>\<open>tasks.filter((t) => t.slot === slot)\<close> for the row of a label.
\<close>

definition byBucket :: "string \<Rightarrow> app \<Rightarrow> task list" where
  "byBucket label s =
     filter (\<lambda>t. slot t = Some label) (filter (\<lambda>t. slot t \<noteq> None) (tasks s))"

text \<open>Line 192: \<^verbatim>\<open>pills.find((p) => p.id === index)\<close>.\<close>

definition get_pill :: "nat \<Rightarrow> app \<Rightarrow> pill option" where
  "get_pill index s = find (\<lambda>p. pill_id p = index) (pills s)"

subsection \<open>The input of UnscheduledTasks\<close>

text \<open>
  \<^verbatim>\<open>String.prototype.trim\<close> removes white space and line terminators at both ends. A
  character here is a code unit below 256; in that range these are tab, line feed,
  vertical tab, form feed, carriage return, space and the no-break space.
\<close>

definition is_space :: "char \<Rightarrow> bool" where
  "is_space c \<longleftrightarrow>
     c = CHR 0x09 \<or> c = CHR 0x0A \<or> c = CHR 0x0B \<or> c = CHR 0x0C \<or> c = CHR 0x0D
     \<or> c = CHR 0x20 \<or> c = CHR 0xA0"

definition trim :: "string \<Rightarrow> string" where
  "trim x = rev (dropWhile is_space (rev (dropWhile is_space x)))"

record editor =
  isEditing :: bool
  newTaskText :: string

text \<open>
  \<^verbatim>\<open>handleKeyDown\<close> (lines 38-44) and the \<^verbatim>\<open>onBlur\<close> handler (lines 57-61). Neither
  awaits the promise of \<^verbatim>\<open>addTask\<close>, so both return normally whatever the store replies.
  The date is \<^verbatim>\<open>new Date().toISOString()\<close>, an input here.
\<close>

definition handleKeyDown ::
  "string \<Rightarrow> string \<Rightarrow> add_reply \<Rightarrow> editor \<times> app \<Rightarrow> completion \<times> editor \<times> app" where
  "handleKeyDown key now reply st =
     (case st of (ed, s) \<Rightarrow>
        if key = ''Enter'' \<and> trim (newTaskText ed) \<noteq> []
        then (Returned, ed\<lparr>newTaskText := [], isEditing := False\<rparr>,
              snd (addTask (newTaskText ed) now reply s))
        else (Returned, ed, s))"

definition onBlur ::
  "string \<Rightarrow> add_reply \<Rightarrow> editor \<times> app \<Rightarrow> completion \<times> editor \<times> app" where
  "onBlur now reply st =
     (case st of (ed, s) \<Rightarrow>
        (Returned, ed\<lparr>newTaskText := [], isEditing := False\<rparr>,
         (if trim (newTaskText ed) \<noteq> [] then snd (addTask (newTaskText ed) now reply s) else s)))"

subsection \<open>Runs of pill drops\<close>

text \<open>
  The right zone of a row calls \<^verbatim>\<open>updatePillStatus(pillIndex, true)\<close>, the left one
  \<^verbatim>\<open>updatePillStatus(pillIndex, false)\<close>; a run is any sequence of such calls.
\<close>

fun pill_drops :: "(jsval \<times> bool) list \<Rightarrow> app \<Rightarrow> app" where
  "pill_drops [] s = s"
| "pill_drops ((pillIndex, tk) # rest) s = pill_drops rest (snd (updatePillStatus pillIndex tk s))"

section \<open>Decimal strings\<close>

text \<open>Reading a digit string back, to say that \<open>toString\<close> is the decimal form.\<close>

definition decimal_value :: "string \<Rightarrow> nat" where
  "decimal_value x = foldl (\<lambda>a c. 10 * a + (of_char c - 48)) 0 x"

section \<open>Scenario states\<close>

text \<open>
  States reached from the initial one by the operations above, used to run the theorems
  on concrete inputs: two tasks created one after the other; then the first one dropped
  on the row of 09:00; and the pill of row 3 dropped on its right (taken) zone.
\<close>

definition two_tasks :: app where
  "two_tasks =
     snd (addTask ''Call dentist'' ''2024-05-01T08:01:00.000Z'' (Resolved 2)
       (snd (addTask ''Buy milk'' ''2024-05-01T08:00:00.000Z'' (Resolved 1) initial_app)))"

definition milk_at_nine :: app where
  "milk_at_nine = snd (updateTaskSlot (JString ''1'') (Some ''09:00'') two_tasks)"

definition pill3_taken :: app where
  "pill3_taken = snd (updatePillStatus (JString ''3'') True initial_app)"

section \<open>Facts about decimal strings\<close>

lemma digit_char_value: "d < 10 \<Longrightarrow> of_char (digit_char d) = 48 + d"
proof -
  assume "d < 10"
  then have "d \<in> {0, 1, 2, 3, 4, 5, 6, 7, 8, 9}"
    by auto
  then show ?thesis
    by (auto simp: digit_char_def)
qed

lemma decimal_value_snoc:
  "decimal_value (x @ [c]) = 10 * decimal_value x + (of_char c - 48)"
  by (simp add: decimal_value_def)

lemma decimal_value_toString: "decimal_value (toString n) = n"
proof (induction n rule: toString.induct)
  case (1 n)
  show ?case
  proof (cases "n < 10")
    case True
    then show ?thesis
      by (simp add: toString.simps [of n] decimal_value_def digit_char_value)
  next
    case False
    have "n mod 10 < 10" by simp
    then have "of_char (digit_char (n mod 10)) - 48 = n mod 10"
      by (simp add: digit_char_value)
    with False 1 show ?thesis
      by (simp add: toString.simps [of n] decimal_value_snoc)
  qed
qed

lemma toString_inj [simp]: "toString n = toString m \<longleftrightarrow> n = m"
  by (metis decimal_value_toString)

lemma strict_eq_iff: "strict_eq x v \<longleftrightarrow> v = JString x"
  by (cases v) auto

section \<open>Facts about the operations\<close>

lemma dropWhile_all: "(\<forall>c \<in> set (dropWhile P x). P c) \<longleftrightarrow> (\<forall>c \<in> set x. P c)"
proof
  assume a: "\<forall>c \<in> set (dropWhile P x). P c"
  have "dropWhile P x = []"
  proof (rule ccontr)
    assume n: "dropWhile P x \<noteq> []"
    then have "\<not> P (hd (dropWhile P x))" by (rule hd_dropWhile)
    moreover from n have "hd (dropWhile P x) \<in> set (dropWhile P x)" by simp
    ultimately show False using a by blast
  qed
  then show "\<forall>c \<in> set x. P c" by simp
next
  assume "\<forall>c \<in> set x. P c"
  then show "\<forall>c \<in> set (dropWhile P x). P c"
    by (blast dest: set_dropWhileD)
qed

lemma trim_empty_iff: "trim x = [] \<longleftrightarrow> (\<forall>c \<in> set x. is_space c)"
  by (simp add: trim_def dropWhile_all)

lemma update_tasks:
  "tasks (snd (updateTaskSlot a L s)) =
     map (\<lambda>t. if a = JString (toString (task_id t)) then t\<lparr>slot := L\<rparr> else t) (tasks s)"
  by (simp add: updateTaskSlot_def Let_def strict_eq_iff)

lemma update_pills_frame: "pills (snd (updateTaskSlot a L s)) = pills s"
  by (simp add: updateTaskSlot_def Let_def)

lemma update_returns: "fst (updateTaskSlot a L s) = Returned"
  by (simp add: updateTaskSlot_def Let_def)

lemma find_map_update:
  "find P (map (\<lambda>t. if P t then f t else t) xs) = map_option f (find P xs)"
  if "\<And>t. P t \<Longrightarrow> P (f t)"
  using that by (induction xs) auto

lemma update_db:
  "db (snd (updateTaskSlot a L s)) =
     (case find (\<lambda>t. a = JString (toString (task_id t))) (tasks s) of
        Some t \<Rightarrow> db s @ [DbPut (t\<lparr>slot := L\<rparr>)] | None \<Rightarrow> db s)"
  by (simp add: updateTaskSlot_def Let_def strict_eq_iff find_map_update split: option.splits)

lemma map_unmatched: "(\<forall>x \<in> set xs. \<not> P x) \<Longrightarrow> map (\<lambda>x. if P x then f x else x) xs = xs"
  by (induction xs) auto

lemma update_unknown:
  "(\<forall>t \<in> set (tasks s). a \<noteq> JString (toString (task_id t))) \<Longrightarrow> updateTaskSlot a L s = (Returned, s)"
  by (simp add: updateTaskSlot_def Let_def strict_eq_iff map_unmatched find_None_iff[THEN iffD2])

lemma tasks_two_tasks:
  "tasks two_tasks =
     [\<lparr>task_id = 1, title = ''Buy milk'', date = ''2024-05-01T08:00:00.000Z'',
        status = ''pending'', slot = None\<rparr>,
      \<lparr>task_id = 2, title = ''Call dentist'', date = ''2024-05-01T08:01:00.000Z'',
        status = ''pending'', slot = None\<rparr>]"
  by (simp add: two_tasks_def initial_app_def)

lemma pills_two_tasks: "pills two_tasks = initial_pills"
  by (simp add: two_tasks_def initial_app_def)

lemma toString_2: "toString 2 = ''2''"
  by code_simp

lemma toString_Suc_0: "toString (Suc 0) = ''1''"
  by code_simp

lemma filter_map_unmatched:
  "(\<forall>x \<in> set xs. Q x \<longrightarrow> \<not> P x) \<Longrightarrow> (\<And>x. P x \<Longrightarrow> \<not> Q (f x)) \<Longrightarrow>
     filter Q (map (\<lambda>x. if P x then f x else x) xs) = filter Q xs"
  by (induction xs) auto

lemma pill_unknown:
  "(\<forall>p \<in> set (pills s). a \<noteq> JString (toString (pill_id p))) \<Longrightarrow> updatePillStatus a b s = (Returned, s)"
  by (simp add: updatePillStatus_def strict_eq_iff map_unmatched)

lemma update_pills:
  "pills (snd (updatePillStatus a b s)) =
     map (\<lambda>p. if a = JString (toString (pill_id p)) then p\<lparr>taken := b\<rparr> else p) (pills s)"
  by (simp add: updatePillStatus_def strict_eq_iff)

lemma pill_frame:
  "tasks (snd (updatePillStatus a b s)) = tasks s" "db (snd (updatePillStatus a b s)) = db s"
  "fst (updatePillStatus a b s) = Returned"
  by (simp_all add: updatePillStatus_def)

lemma length_timeSlots: "length timeSlots = 17"
  by (simp add: timeSlots_def)

lemma initial_pill_ids: "map pill_id initial_pills = [0..<length timeSlots]"
  by (simp add: initial_pills_def map_idI split_def comp_def map_fst_enumerate)

lemma initial_pill_times: "map time initial_pills = timeSlots"
  by (simp add: initial_pills_def split_def comp_def map_snd_enumerate)

lemma initial_pill_taken: "map taken initial_pills = replicate (length timeSlots) False"
  by (simp add: initial_pills_def split_def comp_def map_replicate_const)

lemma find_first_match:
  "x \<in> set xs \<Longrightarrow> P x \<Longrightarrow> \<exists>u. find P xs = Some u \<and> u \<in> set xs \<and> P u"
  by (induction xs) auto

lemma find_distinct_key:
  "distinct (map k xs) \<Longrightarrow> x \<in> set xs \<Longrightarrow> find (\<lambda>y. k y = k x) xs = Some x"
  by (induction xs) (auto simp: image_iff)

lemma map_already: "(\<forall>x \<in> set xs. P x \<longrightarrow> f x = x) \<Longrightarrow> map (\<lambda>x. if P x then f x else x) xs = xs"
  by (induction xs) auto

lemma tasks_milk_at_nine:
  "tasks milk_at_nine =
     [\<lparr>task_id = 1, title = ''Buy milk'', date = ''2024-05-01T08:00:00.000Z'',
        status = ''pending'', slot = Some ''09:00''\<rparr>,
      \<lparr>task_id = 2, title = ''Call dentist'', date = ''2024-05-01T08:01:00.000Z'',
        status = ''pending'', slot = None\<rparr>]"
  by (simp add: milk_at_nine_def update_tasks tasks_two_tasks toString_Suc_0 toString_2)

lemma pill_drops_ids: "map pill_id (pills (pill_drops calls s)) = map pill_id (pills s)"
proof (induction calls arbitrary: s)
  case Nil
  show ?case by simp
next
  case (Cons c calls)
  obtain a b where c: "c = (a, b)" by (cases c)
  have "map pill_id (pills (snd (updatePillStatus a b s))) = map pill_id (pills s)"
    by (simp add: update_pills comp_def)
  with Cons show ?case by (simp add: c)
qed

lemma pill_drops_times: "map time (pills (pill_drops calls s)) = map time (pills s)"
proof (induction calls arbitrary: s)
  case Nil
  show ?case by simp
next
  case (Cons c calls)
  obtain a b where c: "c = (a, b)" by (cases c)
  have "map time (pills (snd (updatePillStatus a b s))) = map time (pills s)"
    by (simp add: update_pills comp_def)
  with Cons show ?case by (simp add: c)
qed

lemma find_by_key_upt:
  "map k xs = [0..<n] \<Longrightarrow> i < n \<Longrightarrow> \<exists>p. find (\<lambda>x. k x = i) xs = Some p \<and> k p = i"
proof -
  assume m: "map k xs = [0..<n]" and i: "i < n"
  then have "i \<in> set (map k xs)" by simp
  then obtain x where "x \<in> set xs" "k x = i" by auto
  then show ?thesis
    using find_first_match [of x xs "\<lambda>x. k x = i"] by auto
qed

lemma toString_digits: "set (toString n) \<subseteq> set ''0123456789''"
proof (induction n rule: toString.induct)
  case (1 n)
  have d: "digit_char k \<in> set ''0123456789''" if "k < 10" for k
    unfolding digit_char_def using that by (intro nth_mem) simp
  show ?case
  proof (cases "n < 10")
    case True
    with d [of n] show ?thesis by (simp add: toString.simps [of n])
  next
    case False
    have "n mod 10 < 10" by simp
    from d [OF this] False 1 show ?thesis by (simp add: toString.simps [of n])
  qed
qed

section \<open>Moving a task\<close>

text \<open>
  C1. A drop of a task that is in memory on the row of a label \<open>L\<close> of the calendar:
  afterwards the task, with its slot set to \<open>L\<close>, is in the bucket of \<open>L\<close>, where the
  tasks that were there stay; every task with that id has slot \<open>L\<close>, so none is left in
  the unscheduled pool or in the bucket of another label (when the task was already at
  \<open>L\<close>, its previous bucket is the destination, where it stays); and the unscheduled pool
  and every bucket other than \<open>L\<close> that did not hold the task are the same lists as before.
\<close>

theorem moveToSlot_moves:
  assumes "t \<in> set (tasks s)" and "L \<in> set timeSlots"
    and "s' = snd (updateTaskSlot (JString (toString (task_id t))) (Some L) s)"
  shows "t\<lparr>slot := Some L\<rparr> \<in> set (byBucket L s')
    \<and> set (byBucket L s) \<subseteq> set (byBucket L s')
    \<and> (\<forall>u \<in> set (tasks s'). task_id u = task_id t \<longrightarrow> slot u = Some L)
    \<and> (\<forall>u \<in> set (unscheduled s'). task_id u \<noteq> task_id t)
    \<and> (\<forall>B. B \<noteq> L \<longrightarrow> (\<forall>u \<in> set (byBucket B s'). task_id u \<noteq> task_id t))
    \<and> ((\<forall>u \<in> set (unscheduled s). task_id u \<noteq> task_id t) \<longrightarrow> unscheduled s' = unscheduled s)
    \<and> (\<forall>B. B \<noteq> L \<longrightarrow> (\<forall>u \<in> set (byBucket B s). task_id u \<noteq> task_id t)
          \<longrightarrow> byBucket B s' = byBucket B s)"
proof -
  let ?f = "\<lambda>x. if task_id x = task_id t then x\<lparr>slot := Some L\<rparr> else x"
  have ts: "tasks s' = map ?f (tasks s)"
    using assms(3) by (simp add: update_tasks)
  have 1: "t\<lparr>slot := Some L\<rparr> \<in> set (byBucket L s')"
  proof -
    have "?f t \<in> set (tasks s')" unfolding ts set_map using assms(1) by (rule imageI)
    then show ?thesis by (simp add: byBucket_def)
  qed
  have 2: "set (byBucket L s) \<subseteq> set (byBucket L s')"
  proof
    fix u assume "u \<in> set (byBucket L s)"
    then have u: "u \<in> set (tasks s)" "slot u = Some L" by (simp_all add: byBucket_def)
    then have "?f u = u" by simp
    moreover have "?f u \<in> set (tasks s')" unfolding ts set_map using u(1) by (rule imageI)
    ultimately have "u \<in> set (tasks s')" by metis
    then show "u \<in> set (byBucket L s')" using u(2) by (simp add: byBucket_def)
  qed
  have 3: "\<forall>u \<in> set (tasks s'). task_id u = task_id t \<longrightarrow> slot u = Some L"
    by (auto simp: ts)
  have 4: "\<forall>u \<in> set (unscheduled s'). task_id u \<noteq> task_id t"
    using 3 by (auto simp: unscheduled_def)
  have 5: "\<forall>B. B \<noteq> L \<longrightarrow> (\<forall>u \<in> set (byBucket B s'). task_id u \<noteq> task_id t)"
    using 3 by (auto simp: byBucket_def)
  have 6: "(\<forall>u \<in> set (unscheduled s). task_id u \<noteq> task_id t) \<longrightarrow> unscheduled s' = unscheduled s"
    unfolding unscheduled_def ts
    by (intro impI filter_map_unmatched) auto
  have 7: "\<forall>B. B \<noteq> L \<longrightarrow> (\<forall>u \<in> set (byBucket B s). task_id u \<noteq> task_id t)
          \<longrightarrow> byBucket B s' = byBucket B s"
    unfolding byBucket_def ts filter_filter
    by (intro allI impI filter_map_unmatched) auto
  from 1 2 3 4 5 6 7 show ?thesis by blast
qed

theorem moveToSlot_moves_witness:
  "\<lparr>task_id = 1, title = ''Buy milk'', date = ''2024-05-01T08:00:00.000Z'',
      status = ''pending'', slot = None\<rparr> \<in> set (tasks two_tasks)
   \<and> ''09:00'' \<in> set timeSlots
   \<and> \<lparr>task_id = 1, title = ''Buy milk'', date = ''2024-05-01T08:00:00.000Z'',
      status = ''pending'', slot = Some ''09:00''\<rparr>
     \<in> set (byBucket ''09:00'' (snd (updateTaskSlot (JString (toString 1)) (Some ''09:00'') two_tasks)))
   \<and> unscheduled (snd (updateTaskSlot (JString (toString 1)) (Some ''09:00'') two_tasks))
     = [\<lparr>task_id = 2, title = ''Call dentist'', date = ''2024-05-01T08:01:00.000Z'',
          status = ''pending'', slot = None\<rparr>]"
proof -
  let ?t = "\<lparr>task_id = 1, title = ''Buy milk'', date = ''2024-05-01T08:00:00.000Z'',
      status = ''pending'', slot = None\<rparr>"
  have a: "?t \<in> set (tasks two_tasks)" by (simp add: tasks_two_tasks)
  have b: "''09:00'' \<in> set timeSlots" by (simp add: timeSlots_def)
  have c: "task_id ?t = 1" by simp
  note m = moveToSlot_moves [OF a b refl, unfolded c]
  have "unscheduled (snd (updateTaskSlot (JString (toString 1)) (Some ''09:00'') two_tasks))
     = [\<lparr>task_id = 2, title = ''Call dentist'', date = ''2024-05-01T08:01:00.000Z'',
          status = ''pending'', slot = None\<rparr>]"
    by (simp add: unscheduled_def update_tasks tasks_two_tasks)
  with a b m show ?thesis by simp
qed

section \<open>Calls that name nothing known\<close>

text \<open>
  C2, as stated, fails. With the two tasks of the scenario in memory: a drop with an id
  that no task has returns normally, not with UnknownTask; a drop of task 1 on a label that
  is not in the calendar returns normally, not with InvalidSlot, and takes the task out of
  the unscheduled pool; a pill drop with index 17, one past the last row, returns normally,
  not with UnknownSlot.
\<close>

theorem rejected_calls_counterexample:
  "fst (updateTaskSlot (JString ''nonexistent-id'') (Some ''09:00'') two_tasks) = Returned
   \<and> ''25:00'' \<notin> set timeSlots
   \<and> fst (updateTaskSlot (JString ''1'') (Some ''25:00'') two_tasks) = Returned
   \<and> unscheduled (snd (updateTaskSlot (JString ''1'') (Some ''25:00'') two_tasks))
       \<noteq> unscheduled two_tasks
   \<and> fst (updatePillStatus (JString ''17'') True two_tasks) = Returned"
  by (simp add: update_returns pill_frame unscheduled_def update_tasks tasks_two_tasks toString_Suc_0 toString_2 timeSlots_def)

text \<open>
  C2, amended. \<^verbatim>\<open>updateTaskSlot\<close> with an id that matches no task in memory, whatever the
  label, and \<^verbatim>\<open>updatePillStatus\<close> with an index that matches no pill, in particular the
  decimal string of a number past the last row, return normally and leave the whole state
  as it was: tasks, pills and the requests sent to the store. No error is reported, and a
  label outside the calendar is not checked.
\<close>

theorem unknown_ids_change_nothing:
  "((\<forall>t \<in> set (tasks s). taskId \<noteq> JString (toString (task_id t)))
      \<longrightarrow> updateTaskSlot taskId L s = (Returned, s))
   \<and> ((\<forall>p \<in> set (pills s). pillIndex \<noteq> JString (toString (pill_id p)))
      \<longrightarrow> updatePillStatus pillIndex b s = (Returned, s))
   \<and> (map pill_id (pills s) = [0..<length timeSlots] \<longrightarrow> length timeSlots \<le> n
      \<longrightarrow> updatePillStatus (JString (toString n)) b s = (Returned, s))"
proof -
  have "updatePillStatus (JString (toString n)) b s = (Returned, s)"
    if ids: "map pill_id (pills s) = [0..<length timeSlots]" and n: "length timeSlots \<le> n"
  proof (rule pill_unknown, rule ballI)
    fix p assume "p \<in> set (pills s)"
    then have "pill_id p \<in> set (map pill_id (pills s))" by simp
    then have "pill_id p < length timeSlots" unfolding ids by simp
    with n show "JString (toString n) \<noteq> JString (toString (pill_id p))" by simp
  qed
  then show ?thesis
    using update_unknown [of s taskId L] pill_unknown [of s pillIndex b] by blast
qed

theorem unknown_ids_change_nothing_witness:
  "map task_id (tasks two_tasks) = [1, 2]
   \<and> updateTaskSlot (JString ''nonexistent-id'') (Some ''09:00'') two_tasks = (Returned, two_tasks)
   \<and> updatePillStatus JNull True two_tasks = (Returned, two_tasks)
   \<and> map pill_id (pills two_tasks) = [0..<length timeSlots] \<and> length timeSlots \<le> 17
   \<and> updatePillStatus (JString (toString 17)) True two_tasks = (Returned, two_tasks)"
proof -
  have a: "\<forall>t \<in> set (tasks two_tasks). JString ''nonexistent-id'' \<noteq> JString (toString (task_id t))"
    by (simp add: tasks_two_tasks toString_Suc_0 toString_2)
  have b: "\<forall>p \<in> set (pills two_tasks). JNull \<noteq> JString (toString (pill_id p))"
    by simp
  have c: "map pill_id (pills two_tasks) = [0..<length timeSlots]"
    by (simp add: pills_two_tasks initial_pill_ids)
  have d: "length timeSlots \<le> 17"
    by (simp add: length_timeSlots)
  have e: "map task_id (tasks two_tasks) = [1, 2]"
    by (simp add: tasks_two_tasks)
  from a b c d e
    unknown_ids_change_nothing [of two_tasks "JString ''nonexistent-id''" "Some ''09:00''" JNull True 17]
  show ?thesis by blast
qed

section \<open>Creating a task\<close>

text \<open>
  C3, as stated, fails. With two spaces in the input, the Enter key and the blur both
  return normally, not with InvalidInput; and \<^verbatim>\<open>addTask\<close> itself, called with that title,
  sends the create request and appends the task.
\<close>

theorem blank_title_counterexample:
  "trim ''  '' = []
   \<and> fst (handleKeyDown ''Enter'' ''2024-05-01T08:00:00.000Z'' (Resolved 1)
        (\<lparr>isEditing = True, newTaskText = ''  ''\<rparr>, initial_app)) = Returned
   \<and> fst (onBlur ''2024-05-01T08:00:00.000Z'' (Resolved 1)
        (\<lparr>isEditing = True, newTaskText = ''  ''\<rparr>, initial_app)) = Returned
   \<and> addTask ''  '' ''2024-05-01T08:00:00.000Z'' (Resolved 1) initial_app =
       (Returned,
        initial_app\<lparr>tasks := [\<lparr>task_id = 1, title = ''  '', date = ''2024-05-01T08:00:00.000Z'',
                                status = ''pending'', slot = None\<rparr>],
                     db := [DbAdd ''  '' ''2024-05-01T08:00:00.000Z'' ''pending'' None]\<rparr>)"
  by (simp add: handleKeyDown_def onBlur_def trim_def is_space_def initial_app_def)

text \<open>
  C3, amended. When the text of the input is empty or has only white space, the Enter key
  (like any other key) changes nothing, and the blur only clears the input and leaves the
  editing mode: both return normally, no task is added and no request is sent to the
  store. The check is in the two handlers, not in \<^verbatim>\<open>addTask\<close>, and no error is reported.
\<close>

theorem blank_title_ignored:
  assumes "\<forall>c \<in> set (newTaskText ed). is_space c"
  shows "handleKeyDown key now reply (ed, s) = (Returned, ed, s)
    \<and> onBlur now reply (ed, s) = (Returned, ed\<lparr>newTaskText := [], isEditing := False\<rparr>, s)"
  using assms by (simp add: handleKeyDown_def onBlur_def trim_empty_iff)

theorem blank_title_ignored_witness:
  "list_all is_space (newTaskText \<lparr>isEditing = True, newTaskText = ''  ''\<rparr>)
   \<and> handleKeyDown ''Enter'' ''2024-05-01T08:00:00.000Z'' (Resolved 1)
        (\<lparr>isEditing = True, newTaskText = ''  ''\<rparr>, initial_app)
      = (Returned, \<lparr>isEditing = True, newTaskText = ''  ''\<rparr>, initial_app)
   \<and> onBlur ''2024-05-01T08:00:00.000Z'' (Resolved 1)
        (\<lparr>isEditing = True, newTaskText = ''  ''\<rparr>, initial_app)
      = (Returned, \<lparr>isEditing = False, newTaskText = []\<rparr>, initial_app)"
proof -
  have a: "\<forall>c \<in> set (newTaskText \<lparr>isEditing = True, newTaskText = ''  ''\<rparr>). is_space c"
    by (simp add: is_space_def)
  have b: "list_all is_space (newTaskText \<lparr>isEditing = True, newTaskText = ''  ''\<rparr>)"
    by (simp add: is_space_def)
  from b blank_title_ignored [OF a, of "''Enter''" "''2024-05-01T08:00:00.000Z''" "Resolved 1" initial_app]
  show ?thesis by simp
qed

text \<open>
  C4, as stated, fails. When the store rejects the create request, the line of
  \<^verbatim>\<open>addTask\<close> after the \<^verbatim>\<open>await\<close> is not reached: with the valid title "Buy milk" the
  request is sent, the promise is rejected, and the unscheduled pool is as empty as before,
  through \<^verbatim>\<open>addTask\<close> itself and through the Enter key.
\<close>

theorem create_rejected_counterexample:
  "trim ''Buy milk'' \<noteq> []
   \<and> addTask ''Buy milk'' ''2024-05-01T08:00:00.000Z'' Rejected initial_app
     = (Failed PersistenceFailure,
        initial_app\<lparr>db := [DbAdd ''Buy milk'' ''2024-05-01T08:00:00.000Z'' ''pending'' None]\<rparr>)
   \<and> unscheduled initial_app = []
   \<and> unscheduled (snd (addTask ''Buy milk'' ''2024-05-01T08:00:00.000Z'' Rejected initial_app)) = []
   \<and> unscheduled (snd (snd (handleKeyDown ''Enter'' ''2024-05-01T08:00:00.000Z'' Rejected
        (\<lparr>isEditing = True, newTaskText = ''Buy milk''\<rparr>, initial_app)))) = []"
  by (simp add: trim_def is_space_def unscheduled_def handleKeyDown_def initial_app_def)

text \<open>
  C4, amended. When the store resolves the create request with the key \<open>i\<close>, \<^verbatim>\<open>addTask\<close>
  appends exactly one task to the tasks, with slot null, so the unscheduled pool is the one
  before followed by that task, every bucket is as before, and one create request is sent;
  with a text that is not blank, the Enter key and the blur do exactly this with the text
  as title. When the store rejects the request, the request has been sent, the promise of
  \<^verbatim>\<open>addTask\<close> is rejected, and the tasks, the unscheduled pool and every bucket are as before.
\<close>

theorem create_adds_one_unscheduled:
  "unscheduled (snd (addTask ttl d (Resolved i) s))
     = unscheduled s @ [\<lparr>task_id = i, title = ttl, date = d, status = ''pending'', slot = None\<rparr>]
   \<and> tasks (snd (addTask ttl d (Resolved i) s))
     = tasks s @ [\<lparr>task_id = i, title = ttl, date = d, status = ''pending'', slot = None\<rparr>]
   \<and> byBucket B (snd (addTask ttl d (Resolved i) s)) = byBucket B s
   \<and> db (snd (addTask ttl d (Resolved i) s)) = db s @ [DbAdd ttl d ''pending'' None]
   \<and> fst (addTask ttl d (Resolved i) s) = Returned
   \<and> (trim (newTaskText ed) \<noteq> [] \<longrightarrow>
        snd (snd (handleKeyDown ''Enter'' d (Resolved i) (ed, s)))
          = snd (addTask (newTaskText ed) d (Resolved i) s)
        \<and> snd (snd (onBlur d (Resolved i) (ed, s)))
          = snd (addTask (newTaskText ed) d (Resolved i) s))
   \<and> addTask ttl d Rejected s
     = (Failed PersistenceFailure, s\<lparr>db := db s @ [DbAdd ttl d ''pending'' None]\<rparr>)
   \<and> tasks (snd (addTask ttl d Rejected s)) = tasks s
   \<and> unscheduled (snd (addTask ttl d Rejected s)) = unscheduled s
   \<and> byBucket B (snd (addTask ttl d Rejected s)) = byBucket B s"
  by (simp add: unscheduled_def byBucket_def handleKeyDown_def onBlur_def)

theorem create_adds_one_unscheduled_witness:
  "trim (newTaskText \<lparr>isEditing = True, newTaskText = ''Buy milk''\<rparr>) \<noteq> []
   \<and> unscheduled (snd (snd (handleKeyDown ''Enter'' ''2024-05-01T08:00:00.000Z'' (Resolved 1)
        (\<lparr>isEditing = True, newTaskText = ''Buy milk''\<rparr>, initial_app))))
     = [\<lparr>task_id = 1, title = ''Buy milk'', date = ''2024-05-01T08:00:00.000Z'',
         status = ''pending'', slot = None\<rparr>]"
proof -
  have a: "trim (newTaskText \<lparr>isEditing = True, newTaskText = ''Buy milk''\<rparr>) \<noteq> []"
    by (simp add: trim_def is_space_def)
  have b: "unscheduled initial_app = []"
    by (simp add: unscheduled_def initial_app_def)
  from a b
    create_adds_one_unscheduled [of "''Buy milk''" "''2024-05-01T08:00:00.000Z''" 1 initial_app
      "''09:00''" "\<lparr>isEditing = True, newTaskText = ''Buy milk''\<rparr>"]
  show ?thesis by simp
qed

section \<open>Moving twice\<close>

text \<open>
  C5. The same drop twice in a row gives the same tasks, hence the same unscheduled pool
  and the same bucket for every label, as the drop once; the pills are untouched.
\<close>

theorem moveToSlot_idempotent:
  "unscheduled (snd (updateTaskSlot taskId L (snd (updateTaskSlot taskId L s))))
     = unscheduled (snd (updateTaskSlot taskId L s))
   \<and> byBucket B (snd (updateTaskSlot taskId L (snd (updateTaskSlot taskId L s))))
     = byBucket B (snd (updateTaskSlot taskId L s))
   \<and> tasks (snd (updateTaskSlot taskId L (snd (updateTaskSlot taskId L s))))
     = tasks (snd (updateTaskSlot taskId L s))
   \<and> pills (snd (updateTaskSlot taskId L (snd (updateTaskSlot taskId L s))))
     = pills (snd (updateTaskSlot taskId L s))"
proof -
  have "tasks (snd (updateTaskSlot taskId L (snd (updateTaskSlot taskId L s))))
     = tasks (snd (updateTaskSlot taskId L s))"
    by (simp add: update_tasks)
  then show ?thesis
    by (simp add: unscheduled_def byBucket_def update_pills_frame)
qed

theorem moveToSlot_idempotent_witness:
  "unscheduled (snd (updateTaskSlot (JString ''1'') (Some ''09:00'')
       (snd (updateTaskSlot (JString ''1'') (Some ''09:00'') two_tasks))))
     = unscheduled (snd (updateTaskSlot (JString ''1'') (Some ''09:00'') two_tasks))
   \<and> byBucket ''09:00'' (snd (updateTaskSlot (JString ''1'') (Some ''09:00'')
       (snd (updateTaskSlot (JString ''1'') (Some ''09:00'') two_tasks))))
     = byBucket ''09:00'' (snd (updateTaskSlot (JString ''1'') (Some ''09:00'') two_tasks))"
  using moveToSlot_idempotent [of "JString ''1''" "Some ''09:00''" two_tasks "''09:00''"]
  by blast

text \<open>
  C6. A drop whose id is found in memory returns normally and sends one put request,
  carrying the first task with that id with its slot set to the destination (with unique
  ids, the task itself). When every task with that id is already at the destination, the
  tasks stay as they are and the put carries the task unchanged: the request is sent all
  the same.
\<close>

theorem move_always_persists:
  assumes "t \<in> set (tasks s)" and "taskId = JString (toString (task_id t))"
    and "r = updateTaskSlot taskId L s"
  shows "fst r = Returned
    \<and> (\<exists>u. find (\<lambda>x. task_id x = task_id t) (tasks s) = Some u
          \<and> db (snd r) = db s @ [DbPut (u\<lparr>slot := L\<rparr>)])
    \<and> (distinct (map task_id (tasks s)) \<longrightarrow> db (snd r) = db s @ [DbPut (t\<lparr>slot := L\<rparr>)])
    \<and> ((\<forall>x \<in> set (tasks s). task_id x = task_id t \<longrightarrow> slot x = L)
          \<longrightarrow> tasks (snd r) = tasks s
            \<and> (\<exists>u. find (\<lambda>x. task_id x = task_id t) (tasks s) = Some u
                  \<and> db (snd r) = db s @ [DbPut u]))
    \<and> (distinct (map task_id (tasks s)) \<and> slot t = L
          \<longrightarrow> r = (Returned, s\<lparr>db := db s @ [DbPut t]\<rparr>))"
proof -
  let ?P = "\<lambda>x. task_id x = task_id t"
  obtain u where u: "find ?P (tasks s) = Some u" "u \<in> set (tasks s)" "task_id u = task_id t"
    using find_first_match [of t "tasks s" ?P] assms(1) by auto
  have r1: "fst r = Returned"
    by (simp add: assms(3) update_returns)
  have "find (\<lambda>x. task_id t = task_id x) (tasks s) = find ?P (tasks s)"
    by (rule arg_cong [where f = "\<lambda>Q. find Q (tasks s)"]) (rule ext, rule eq_commute)
  then have dbr: "db (snd r) = db s @ [DbPut (u\<lparr>slot := L\<rparr>)]"
    using u(1) by (simp add: assms(2,3) update_db)
  have tsr: "tasks (snd r) = map (\<lambda>x. if ?P x then x\<lparr>slot := L\<rparr> else x) (tasks s)"
    by (simp add: assms(2,3) update_tasks)
  have psr: "pills (snd r) = pills s"
    by (simp add: assms(3) update_pills_frame)
  have d: "u = t" if "distinct (map task_id (tasks s))"
    using find_distinct_key [OF that assms(1)] u(1) by simp
  have same: "tasks (snd r) = tasks s \<and> u\<lparr>slot := L\<rparr> = u"
    if "\<forall>x \<in> set (tasks s). task_id x = task_id t \<longrightarrow> slot x = L"
  proof -
    have "tasks (snd r) = tasks s"
      unfolding tsr using that by (intro map_already) auto
    moreover have "slot u = L" using that u(2,3) by blast
    ultimately show ?thesis by simp
  qed
  have last: "r = (Returned, s\<lparr>db := db s @ [DbPut t]\<rparr>)"
    if dist: "distinct (map task_id (tasks s))" and at: "slot t = L"
  proof -
    have all: "\<forall>x \<in> set (tasks s). task_id x = task_id t \<longrightarrow> slot x = L"
    proof (intro ballI impI)
      fix x assume x: "x \<in> set (tasks s)" "task_id x = task_id t"
      have "find ?P (tasks s) = Some x"
        using find_distinct_key [OF dist x(1)] x(2) by simp
      with u(1) d [OF dist] at show "slot x = L" by simp
    qed
    have "snd r = s\<lparr>db := db s @ [DbPut t]\<rparr>"
      using same [OF all] dbr psr d [OF dist] by (cases "snd r") (cases s, simp)
    with r1 show ?thesis by (cases r) simp
  qed
  from r1 u(1) dbr d same last show ?thesis by (metis (no_types, lifting))
qed

theorem move_always_persists_witness:
  "\<lparr>task_id = 1, title = ''Buy milk'', date = ''2024-05-01T08:00:00.000Z'',
      status = ''pending'', slot = Some ''09:00''\<rparr> \<in> set (tasks milk_at_nine)
   \<and> distinct (map task_id (tasks milk_at_nine))
   \<and> updateTaskSlot (JString (toString 1)) (Some ''09:00'') milk_at_nine
     = (Returned,
        milk_at_nine\<lparr>db := db milk_at_nine @
          [DbPut \<lparr>task_id = 1, title = ''Buy milk'', date = ''2024-05-01T08:00:00.000Z'',
             status = ''pending'', slot = Some ''09:00''\<rparr>]\<rparr>)"
proof -
  let ?t = "\<lparr>task_id = 1, title = ''Buy milk'', date = ''2024-05-01T08:00:00.000Z'',
      status = ''pending'', slot = Some ''09:00''\<rparr>"
  have a: "?t \<in> set (tasks milk_at_nine)" by (simp add: tasks_milk_at_nine)
  have b: "JString (toString 1) = JString (toString (task_id ?t))" by simp
  have c: "distinct (map task_id (tasks milk_at_nine))" by (simp add: tasks_milk_at_nine)
  have d: "slot ?t = Some ''09:00''" by simp
  from a c d move_always_persists [OF a b refl, of "Some ''09:00''"]
  show ?thesis by blast
qed

text \<open>
  C9. A drop keeps the number and order of the tasks and the id, title, date and status of
  every task; a task whose id does not match is the same record as before, one whose id
  matches differs at most in its slot; the pills are untouched.
\<close>

theorem move_changes_only_slot:
  assumes "s' = snd (updateTaskSlot taskId L s)"
  shows "length (tasks s') = length (tasks s)
    \<and> map task_id (tasks s') = map task_id (tasks s)
    \<and> map title (tasks s') = map title (tasks s)
    \<and> map date (tasks s') = map date (tasks s)
    \<and> map status (tasks s') = map status (tasks s)
    \<and> (\<forall>k < length (tasks s). taskId \<noteq> JString (toString (task_id (tasks s ! k)))
          \<longrightarrow> tasks s' ! k = tasks s ! k)
    \<and> (\<forall>k < length (tasks s). taskId = JString (toString (task_id (tasks s ! k)))
          \<longrightarrow> tasks s' ! k = (tasks s ! k)\<lparr>slot := L\<rparr>)
    \<and> pills s' = pills s"
  by (simp add: assms update_tasks update_pills_frame comp_def)

theorem move_changes_only_slot_witness:
  "(1::nat) < length (tasks two_tasks)
   \<and> JString (toString 1) \<noteq> JString (toString (task_id (tasks two_tasks ! 1)))
   \<and> tasks (snd (updateTaskSlot (JString (toString 1)) (Some ''09:00'') two_tasks)) ! 1
     = tasks two_tasks ! 1
   \<and> map title (tasks (snd (updateTaskSlot (JString (toString 1)) (Some ''09:00'') two_tasks)))
     = map title (tasks two_tasks)"
proof -
  have a: "(1::nat) < length (tasks two_tasks)"
    by (simp add: tasks_two_tasks)
  have b: "JString (toString 1) \<noteq> JString (toString (task_id (tasks two_tasks ! 1)))"
    by (simp add: tasks_two_tasks)
  from a b move_changes_only_slot [OF refl, of "JString (toString 1)" "Some ''09:00''" two_tasks]
  show ?thesis by blast
qed

section \<open>Pills\<close>

text \<open>
  C7, as stated, fails. Once the pill of row 3 is taken, dropping it on the taken zone and
  then on the not-taken zone leaves it not taken, which is not the state it had before.
\<close>

theorem pill_round_trip_counterexample:
  "get_pill 3 pill3_taken
     = Some \<lparr>pill_id = 3, time = ''11:00'', taken = True\<rparr>
   \<and> get_pill 3 (snd (updatePillStatus (JString ''3'') False
        (snd (updatePillStatus (JString ''3'') True pill3_taken))))
     = Some \<lparr>pill_id = 3, time = ''11:00'', taken = False\<rparr>"
  by code_simp

text \<open>
  C7, amended. When the pill with index \<open>i\<close> is not taken, as after initialisation,
  dropping it on the taken zone and then on the not-taken zone returns normally and gives
  back the state before; and a drop on the zone where the pill already is returns
  normally and leaves the state as it was.
\<close>

theorem pill_round_trip:
  "((\<forall>p \<in> set (pills s). pill_id p = i \<longrightarrow> \<not> taken p)
      \<longrightarrow> updatePillStatus (JString (toString i)) False
            (snd (updatePillStatus (JString (toString i)) True s)) = (Returned, s))
   \<and> ((\<forall>p \<in> set (pills s). pill_id p = i \<longrightarrow> taken p = b)
      \<longrightarrow> updatePillStatus (JString (toString i)) b s = (Returned, s))"
proof -
  have 1: "updatePillStatus (JString (toString i)) False
            (snd (updatePillStatus (JString (toString i)) True s)) = (Returned, s)"
    if "\<forall>p \<in> set (pills s). pill_id p = i \<longrightarrow> \<not> taken p"
  proof -
    have "map ((\<lambda>p. if i = pill_id p then p\<lparr>taken := False\<rparr> else p)
            \<circ> (\<lambda>p. if i = pill_id p then p\<lparr>taken := True\<rparr> else p)) (pills s) = pills s"
      using that by (intro map_idI) auto
    then show ?thesis
      by (simp add: updatePillStatus_def strict_eq_iff)
  qed
  have 2: "updatePillStatus (JString (toString i)) b s = (Returned, s)"
    if "\<forall>p \<in> set (pills s). pill_id p = i \<longrightarrow> taken p = b"
  proof -
    have "map (\<lambda>p. if i = pill_id p then p\<lparr>taken := b\<rparr> else p) (pills s) = pills s"
      using that by (intro map_idI) auto
    then show ?thesis
      by (simp add: updatePillStatus_def strict_eq_iff)
  qed
  from 1 2 show ?thesis by blast
qed

theorem pill_round_trip_witness:
  "map taken (pills initial_app) = replicate 17 False
   \<and> updatePillStatus (JString (toString 3)) False
        (snd (updatePillStatus (JString (toString 3)) True initial_app)) = (Returned, initial_app)
   \<and> get_pill 3 pill3_taken = Some \<lparr>pill_id = 3, time = ''11:00'', taken = True\<rparr>
   \<and> updatePillStatus (JString (toString 3)) True pill3_taken = (Returned, pill3_taken)"
proof -
  have a: "\<forall>p \<in> set (pills initial_app). pill_id p = 3 \<longrightarrow> \<not> taken p"
    by (simp add: initial_app_def initial_pills_def timeSlots_def)
  have b: "\<forall>p \<in> set (pills pill3_taken). pill_id p = 3 \<longrightarrow> taken p = True"
    by code_simp
  have c: "map taken (pills initial_app) = replicate 17 False"
    using initial_pill_taken by (simp add: initial_app_def length_timeSlots)
  have d: "get_pill 3 pill3_taken = Some \<lparr>pill_id = 3, time = ''11:00'', taken = True\<rparr>"
    by code_simp
  from a b c d pill_round_trip [of initial_app 3 True] pill_round_trip [of pill3_taken 3 True]
  show ?thesis by blast
qed

text \<open>
  C8. The initial pills are one per label of the calendar, with the indices 0 to 16 in
  order, the labels as times, none taken. A call of \<^verbatim>\<open>updatePillStatus\<close> keeps the number
  of pills, their indices and their times, in every state; so after any run of such calls
  from the initial state the indices are still 0 to 16, each once, the times are the labels,
  and the pill of every row is found, with the label of the row.
\<close>

theorem one_pill_per_slot:
  "length timeSlots = 17
   \<and> map pill_id initial_pills = [0..<17]
   \<and> map time initial_pills = timeSlots
   \<and> map taken initial_pills = replicate 17 False
   \<and> pills initial_app = initial_pills
   \<and> map pill_id (pills (snd (updatePillStatus pillIndex b s))) = map pill_id (pills s)
   \<and> map time (pills (snd (updatePillStatus pillIndex b s))) = map time (pills s)
   \<and> length (pills (snd (updatePillStatus pillIndex b s))) = length (pills s)
   \<and> map pill_id (pills (pill_drops calls initial_app)) = [0..<17]
   \<and> map time (pills (pill_drops calls initial_app)) = timeSlots
   \<and> distinct (map pill_id (pills (pill_drops calls initial_app)))
   \<and> (index < 17 \<longrightarrow>
        (\<exists>p. get_pill index (pill_drops calls initial_app) = Some p
           \<and> pill_id p = index \<and> time p = timeSlots ! index))"
proof -
  have ids0: "map pill_id initial_pills = [0..<17]"
    using initial_pill_ids by (simp add: length_timeSlots)
  have tk0: "map taken initial_pills = replicate 17 False"
    using initial_pill_taken by (simp add: length_timeSlots)
  have st: "map pill_id (pills (snd (updatePillStatus pillIndex b s))) = map pill_id (pills s)"
    "map time (pills (snd (updatePillStatus pillIndex b s))) = map time (pills s)"
    "length (pills (snd (updatePillStatus pillIndex b s))) = length (pills s)"
    by (simp_all add: update_pills comp_def)
  have ids: "map pill_id (pills (pill_drops calls initial_app)) = [0..<17]"
    by (simp add: pill_drops_ids initial_app_def ids0)
  have tms: "map time (pills (pill_drops calls initial_app)) = timeSlots"
    by (simp add: pill_drops_times initial_app_def initial_pill_times)
  have dist: "distinct (map pill_id (pills (pill_drops calls initial_app)))"
    unfolding ids by simp
  have get: "\<exists>p. get_pill index (pill_drops calls initial_app) = Some p
           \<and> pill_id p = index \<and> time p = timeSlots ! index" if idx: "index < 17"
  proof -
    let ?ps = "pills (pill_drops calls initial_app)"
    obtain p where p: "find (\<lambda>x. pill_id x = index) ?ps = Some p" "pill_id p = index"
      using find_by_key_upt [OF ids idx] by blast
    then have "p \<in> set ?ps"
      by (auto simp: find_Some_iff)
    then obtain k where k: "k < length ?ps" "?ps ! k = p"
      by (auto simp: in_set_conv_nth)
    have len: "length ?ps = 17"
      using arg_cong [OF ids, of length] by simp
    have "map pill_id ?ps ! k = k"
      unfolding ids using k(1) len by simp
    then have "k = index" using k p(2) by simp
    moreover have "map time ?ps ! k = time p" using k by simp
    ultimately have "time p = timeSlots ! index" using tms by simp
    with p show ?thesis by (simp add: get_pill_def)
  qed
  from length_timeSlots ids0 initial_pill_times tk0 st ids tms dist get
  show ?thesis by (simp add: initial_app_def)
qed

theorem one_pill_per_slot_witness:
  "(3::nat) < 17
   \<and> (\<exists>p. get_pill 3 (pill_drops [(JString ''3'', True), (JString ''4'', True), (JString ''3'', False)]
              initial_app) = Some p
         \<and> pill_id p = 3 \<and> time p = timeSlots ! 3)"
proof -
  have a: "(3::nat) < 17" by simp
  from a one_pill_per_slot [of _ _ _ "[(JString ''3'', True), (JString ''4'', True), (JString ''3'', False)]" 3]
  show ?thesis by blast
qed

section \<open>How ids are matched\<close>

text \<open>
  C10. With every id in memory below 2^53, where \<open>toString\<close> is the JavaScript method:
  \<^verbatim>\<open>updateTaskSlot\<close> changes the slot of exactly the tasks for which the argument is the
  string \<open>toString\<close> of the id, and \<^verbatim>\<open>updatePillStatus\<close> the flag of exactly the pills for
  which it is the string of the index; with a number below 2^53 as argument neither
  changes anything, whatever the number. For ids below 2^53, \<open>toString\<close> is the decimal
  form: only digits, which read back give the id, so two ids have the same string only
  when they are equal.
\<close>

theorem ids_match_as_decimal_strings:
  assumes "\<forall>t \<in> set (tasks s). task_id t < 2 ^ 53"
    and "\<forall>p \<in> set (pills s). pill_id p < 2 ^ 53"
    and "n < 2 ^ 53" and "m < 2 ^ 53"
  shows "tasks (snd (updateTaskSlot taskId L s))
     = map (\<lambda>t. if taskId = JString (toString (task_id t)) then t\<lparr>slot := L\<rparr> else t) (tasks s)
   \<and> pills (snd (updatePillStatus pillIndex b s))
     = map (\<lambda>p. if pillIndex = JString (toString (pill_id p)) then p\<lparr>taken := b\<rparr> else p) (pills s)
   \<and> updateTaskSlot (JNumber n) L s = (Returned, s)
   \<and> updatePillStatus (JNumber n) b s = (Returned, s)
   \<and> decimal_value (toString n) = n
   \<and> set (toString n) \<subseteq> set ''0123456789''
   \<and> (toString n = toString m \<longleftrightarrow> n = m)"
proof -
  have "updateTaskSlot (JNumber n) L s = (Returned, s)"
    by (rule update_unknown) simp
  moreover have "updatePillStatus (JNumber n) b s = (Returned, s)"
    by (rule pill_unknown) simp
  ultimately show ?thesis
    using toString_digits [of n]
    by (simp add: update_tasks update_pills decimal_value_toString)
qed

theorem ids_match_as_decimal_strings_witness:
  "map task_id (tasks two_tasks) = [1, 2]
   \<and> map pill_id (pills two_tasks) = [0..<17]
   \<and> (17::nat) < 2 ^ 53 \<and> (3::nat) < 2 ^ 53
   \<and> updateTaskSlot (JNumber 17) (Some ''09:00'') two_tasks = (Returned, two_tasks)
   \<and> updatePillStatus (JNumber 17) True two_tasks = (Returned, two_tasks)
   \<and> decimal_value (toString 17) = 17
   \<and> toString 17 \<noteq> toString 3"
proof -
  have a: "\<forall>t \<in> set (tasks two_tasks). task_id t < 2 ^ 53"
    by (simp add: tasks_two_tasks)
  have ids: "map pill_id (pills two_tasks) = [0..<17]"
    using initial_pill_ids by (simp add: pills_two_tasks length_timeSlots)
  have b: "\<forall>p \<in> set (pills two_tasks). pill_id p < 2 ^ 53"
  proof
    fix p assume "p \<in> set (pills two_tasks)"
    then have "pill_id p \<in> set (map pill_id (pills two_tasks))" by simp
    then have "pill_id p < 17" unfolding ids by simp
    then show "pill_id p < 2 ^ 53" by simp
  qed
  have c: "(17::nat) < 2 ^ 53" and d: "(3::nat) < 2 ^ 53"
    by simp_all
  have e: "map task_id (tasks two_tasks) = [1, 2]"
    by (simp add: tasks_two_tasks)
  note m = ids_match_as_decimal_strings [OF a b c d, of _ "Some ''09:00''" _ True]
  from m ids c d e show ?thesis by simp
qed

end
